theory Spec2Isabelle
  imports Main
begin

section \<open>Python values\<close>

text \<open>
  The module \<^verbatim>\<open>telegra/__init__.py\<close> handles decoded JSON (\<^verbatim>\<open>resp.json()\<close>) and
  passes it on as keyword arguments, so the model needs a universe of dynamically typed
  values. A \<^verbatim>\<open>dict\<close> with string keys is an association list in insertion order,
  looked up with \<open>map_of\<close>. Floating point numbers are left out. A \<^verbatim>\<open>str\<close> is a
  \<open>string\<close>; its elements stand for the characters that \<^verbatim>\<open>len\<close> counts.
\<close>

datatype pyval =
    PyNone
  | PyBool bool
  | PyInt int
  | PyStr string
  | PyList "pyval list"
  | PyDict "(string \<times> pyval) list"

text \<open>Truth value testing, as \<^verbatim>\<open>if x:\<close> and \<^verbatim>\<open>not x\<close> do it.\<close>

fun truthy :: "pyval \<Rightarrow> bool" where
  "truthy PyNone = False"
| "truthy (PyBool b) = b"
| "truthy (PyInt i) = (i \<noteq> 0)"
| "truthy (PyStr s) = (s \<noteq> [])"
| "truthy (PyList xs) = (xs \<noteq> [])"
| "truthy (PyDict d) = (d \<noteq> [])"

section \<open>Content nodes\<close>

text \<open>
  \<^verbatim>\<open>class NodeElement\<close> has the fields \<^verbatim>\<open>tag: str\<close>,
  \<^verbatim>\<open>attrs: Optional[Dict[str, str]]\<close> and
  \<^verbatim>\<open>children: Optional[List[Union[str, "NodeElement"]]]\<close>. A child is either a bare
  string or an element.
\<close>

datatype NodeElement =
    NodeElement (tag: string) (attrs: "(string \<times> string) list option")
      (children: "child list option")
and child =
    Text string
  | Element NodeElement

text \<open>
  \<^verbatim>\<open>NodeElement.to_dict\<close>. The result dictionary is built in the order \<^verbatim>\<open>tag\<close>,
  \<^verbatim>\<open>attrs\<close>, \<^verbatim>\<open>children\<close>; \<^verbatim>\<open>if self.attrs:\<close> and \<^verbatim>\<open>if self.children:\<close>
  are false for \<^verbatim>\<open>None\<close> and for an empty container. \<open>wire\<close> is the body of the
  list comprehension: \<^verbatim>\<open>child if isinstance(child, str) else child.to_dict()\<close>.
\<close>

fun to_dict :: "NodeElement \<Rightarrow> (string \<times> pyval) list"
and wire :: "child \<Rightarrow> pyval" where
  "to_dict (NodeElement t a c) =
     [(''tag'', PyStr t)]
     @ (case a of
          None \<Rightarrow> []
        | Some kvs \<Rightarrow>
            if kvs \<noteq> [] then [(''attrs'', PyDict (map (\<lambda>(k, v). (k, PyStr v)) kvs))] else [])
     @ (case c of
          None \<Rightarrow> []
        | Some cs \<Rightarrow>
            if cs \<noteq> [] then [(''children'', PyList (map wire cs))] else [])"
| "wire (Text s) = PyStr s"
| "wire (Element n) = PyDict (to_dict n)"

section \<open>Errors\<close>

text \<open>
  Every \<^verbatim>\<open>raise\<close> is a value. A message written as an f-string is the list of its
  parts: literal text (a formatted \<^verbatim>\<open>str\<close> or \<^verbatim>\<open>int\<close> is literal text too),
  \<^verbatim>\<open>{value!r}\<close> and \<^verbatim>\<open>{type(value)}\<close>.

  \<open>ValueError\<close>, \<open>TypeError\<close> and \<open>TelegraphError\<close> are raised by the module itself.
  The others are raised by what the module calls, and carry what they were raised about
  instead of a message text:
  \<^item> \<open>InstanceOfError\<close>: the \<^verbatim>\<open>TypeError\<close> of \<^verbatim>\<open>attrs.validators.instance_of\<close>;
  \<^item> \<open>NotInError\<close>: the \<^verbatim>\<open>ValueError\<close> of \<^verbatim>\<open>attrs.validators.in_\<close>;
  \<^item> \<open>UnexpectedKeyword\<close>, \<open>MissingArgument\<close>: the \<^verbatim>\<open>TypeError\<close> of a generated
    \<^verbatim>\<open>__init__\<close> called with keyword arguments that do not fit;
  \<^item> \<open>NotAMapping\<close>: the \<^verbatim>\<open>TypeError\<close> of \<^verbatim>\<open>f(**x)\<close> when \<^verbatim>\<open>x\<close> is no mapping;
  \<^item> \<open>BadSubscript\<close>: the \<^verbatim>\<open>TypeError\<close> of \<^verbatim>\<open>x["key"]\<close> when \<^verbatim>\<open>x\<close> is no dict;
  \<^item> \<open>NotIterable\<close>: the \<^verbatim>\<open>TypeError\<close> of iterating over a value that is not iterable;
  \<^item> \<open>KeyError\<close>: a dict without the key;
  \<^item> \<open>AttributeError\<close>: \<^verbatim>\<open>x.get\<close> when \<^verbatim>\<open>x\<close> is no dict;
  \<^item> \<open>NotAnAttrsClassError\<close>: \<^verbatim>\<open>attrs.evolve\<close> on an object whose class is not an
    attrs class (a subclass of \<^verbatim>\<open>ValueError\<close>);
  \<^item> \<open>TransportError\<close>: anything the HTTP session raises (connection failure,
    \<^verbatim>\<open>raise_for_status\<close>, a body that is not JSON).
\<close>

datatype fragment = Lit string | Repr pyval | TypeOf pyval

type_synonym message = "fragment list"

datatype error =
    ValueError message
  | TypeError message
  | TelegraphError pyval
  | InstanceOfError string pyval
  | NotInError string pyval
  | UnexpectedKeyword string
  | MissingArgument string
  | NotAMapping pyval
  | BadSubscript pyval
  | NotIterable pyval
  | KeyError string
  | AttributeError pyval string
  | NotAnAttrsClassError
  | TransportError string

text \<open>Sequencing: the first error ends the computation, as an exception does.\<close>

definition and_then :: "error + 'a \<Rightarrow> ('a \<Rightarrow> error + 'b) \<Rightarrow> error + 'b" where
  "and_then r f = (case r of Inl e \<Rightarrow> Inl e | Inr x \<Rightarrow> f x)"

fun map_e :: "('a \<Rightarrow> error + 'b) \<Rightarrow> 'a list \<Rightarrow> error + 'b list" where
  "map_e f [] = Inr []"
| "map_e f (x # xs) = and_then (f x) (\<lambda>y. and_then (map_e f xs) (\<lambda>ys. Inr (y # ys)))"

subsection \<open>Builtins the module uses\<close>

text \<open>\<^verbatim>\<open>str(n)\<close> for an integer: its decimal numeral.\<close>

definition digit :: "nat \<Rightarrow> char" where
  "digit d = ''0123456789'' ! d"

fun str_nat :: "nat \<Rightarrow> string" where
  "str_nat n = (if n < 10 then [digit n] else str_nat (n div 10) @ [digit (n mod 10)])"

declare str_nat.simps [simp del]

definition str_int :: "int \<Rightarrow> string" where
  "str_int i = (if i < 0 then CHR ''-'' # str_nat (nat (- i)) else str_nat (nat i))"

text \<open>\<^verbatim>\<open>str(b).lower()\<close> for a boolean.\<close>

definition str_bool_lower :: "bool \<Rightarrow> string" where
  "str_bool_lower b = (if b then ''true'' else ''false'')"

text \<open>\<^verbatim>\<open>x[k]\<close>, \<^verbatim>\<open>x.get(k)\<close>, \<^verbatim>\<open>**x\<close> and \<^verbatim>\<open>for y in x\<close> on a decoded value.\<close>

definition getitem :: "pyval \<Rightarrow> string \<Rightarrow> error + pyval" where
  "getitem x k =
     (case x of
        PyDict d \<Rightarrow> (case map_of d k of Some v \<Rightarrow> Inr v | None \<Rightarrow> Inl (KeyError k))
      | _ \<Rightarrow> Inl (BadSubscript x))"

definition arg :: "(string \<times> pyval) list \<Rightarrow> string \<Rightarrow> pyval" where
  "arg kw k = (case map_of kw k of Some v \<Rightarrow> v | None \<Rightarrow> PyNone)"

definition get :: "pyval \<Rightarrow> string \<Rightarrow> error + pyval" where
  "get x k = (case x of PyDict d \<Rightarrow> Inr (arg d k) | _ \<Rightarrow> Inl (AttributeError x ''get''))"

definition kwargs_of :: "pyval \<Rightarrow> error + (string \<times> pyval) list" where
  "kwargs_of x = (case x of PyDict d \<Rightarrow> Inr d | _ \<Rightarrow> Inl (NotAMapping x))"

definition iter :: "pyval \<Rightarrow> error + pyval list" where
  "iter x =
     (case x of
        PyList xs \<Rightarrow> Inr xs
      | PyDict d \<Rightarrow> Inr (map (\<lambda>(k, v). PyStr k) d)
      | PyStr s \<Rightarrow> Inr (map (\<lambda>c. PyStr [c]) s)
      | _ \<Rightarrow> Inl (NotIterable x))"

text \<open>
  Calling a generated \<^verbatim>\<open>__init__\<close> with \<^verbatim>\<open>**kw\<close>: every keyword must be a field,
  and every field without a default must be given.
\<close>

definition check_kwargs :: "string list \<Rightarrow> string list \<Rightarrow> (string \<times> pyval) list \<Rightarrow> error + unit" where
  "check_kwargs fields required kw =
     (case find (\<lambda>k. k \<notin> set fields) (map fst kw) of
        Some k \<Rightarrow> Inl (UnexpectedKeyword k)
      | None \<Rightarrow>
          (case find (\<lambda>k. map_of kw k = None) required of
             Some k \<Rightarrow> Inl (MissingArgument k)
           | None \<Rightarrow> Inr ()))"

subsection \<open>Validators\<close>

text \<open>The validators of the attrs library that the module uses.\<close>

definition instance_of_str :: "string \<Rightarrow> pyval \<Rightarrow> error + unit" where
  "instance_of_str name v = (case v of PyStr s \<Rightarrow> Inr () | _ \<Rightarrow> Inl (InstanceOfError name v))"

text \<open>\<^verbatim>\<open>bool\<close> is a subclass of \<^verbatim>\<open>int\<close>: \<^verbatim>\<open>isinstance(True, int)\<close> holds.\<close>

definition instance_of_int :: "string \<Rightarrow> pyval \<Rightarrow> error + unit" where
  "instance_of_int name v =
     (case v of PyInt i \<Rightarrow> Inr () | PyBool b \<Rightarrow> Inr () | _ \<Rightarrow> Inl (InstanceOfError name v))"

definition in_options :: "string set \<Rightarrow> string \<Rightarrow> pyval \<Rightarrow> error + unit" where
  "in_options options name v =
     (case v of
        PyStr s \<Rightarrow> if s \<in> options then Inr () else Inl (NotInError name v)
      | _ \<Rightarrow> Inl (NotInError name v))"

definition optional :: "(string \<Rightarrow> pyval \<Rightarrow> error + unit) \<Rightarrow> string \<Rightarrow> pyval \<Rightarrow> error + unit" where
  "optional validator name v = (if v = PyNone then Inr () else validator name v)"

text \<open>
  \<^verbatim>\<open>length(min=None, max=None)\<close> and the closure \<^verbatim>\<open>validate\<close> that it returns. Of the
  attribute only \<^verbatim>\<open>attribute.name\<close> is used; \<^verbatim>\<open>instance\<close> is not used at all.
\<close>

definition validate :: "int option \<Rightarrow> int option \<Rightarrow> string \<Rightarrow> pyval \<Rightarrow> error + unit" where
  "validate mn mx name v =
     (case v of
        PyNone \<Rightarrow> Inr ()
      | PyStr s \<Rightarrow>
          if mn \<noteq> None \<and> int (length s) < the mn then
            Inl (ValueError
              [Lit ''The attribute '', Lit name, Lit '' length must be at least '',
               Lit (str_int (the mn)), Lit '' (got '', Lit (str_int (int (length s))), Lit '').''])
          else if mx \<noteq> None \<and> int (length s) > the mx then
            Inl (ValueError
              [Lit ''The attribute '', Lit name, Lit '' length must be at most '',
               Lit (str_int (the mx)), Lit '' (got '', Lit (str_int (int (length s))), Lit '').''])
          else Inr ()
      | _ \<Rightarrow>
          Inl (TypeError
            [Lit ''The attribute '', Lit name, Lit '' must be a string '',
             Lit ''(got '', Repr v, Lit '' that is a '', TypeOf v, Lit '').'']))"

definition length_validator ::
  "int option \<Rightarrow> int option \<Rightarrow> error + (string \<Rightarrow> pyval \<Rightarrow> error + unit)" where
  "length_validator mn mx =
     (if mn = None \<and> mx = None then
        Inl (ValueError [Lit ''At least min or max must be specified.''])
      else Inr (validate mn mx))"

section \<open>Entities\<close>

text \<open>
  The classes are attrs classes. The annotations of their fields are not enforced when
  the program runs: a field holds whatever the validators of the field let through, so
  the fields of the entities that are built from a response are values of \<open>pyval\<close>.
  \<open>X_init kw\<close> is the call \<^verbatim>\<open>X(**kw)\<close>.
\<close>

definition ALLOWED_TAGS :: "string set" where
  "ALLOWED_TAGS =
     {''a'', ''aside'', ''b'', ''blockquote'', ''br'', ''code'', ''em'', ''figcaption'', ''figure'',
      ''h3'', ''h4'', ''hr'', ''i'', ''iframe'', ''img'', ''li'', ''ol'', ''p'', ''pre'', ''s'',
      ''strong'', ''u'', ''ul'', ''video''}"

text \<open>
  Constructing a \<^verbatim>\<open>NodeElement\<close>: the validators of \<^verbatim>\<open>tag\<close> are
  \<^verbatim>\<open>[instance_of(str), validators.in_(ALLOWED_TAGS)]\<close>, run in this order;
  \<^verbatim>\<open>attrs\<close> and \<^verbatim>\<open>children\<close> have none. The tag arrives as any value.
\<close>

definition NodeElement_init ::
  "pyval \<Rightarrow> (string \<times> string) list option \<Rightarrow> child list option \<Rightarrow> error + NodeElement" where
  "NodeElement_init t a c =
     and_then (instance_of_str ''tag'' t) (\<lambda>_.
     and_then (in_options ALLOWED_TAGS ''tag'' t) (\<lambda>_.
     (case t of PyStr s \<Rightarrow> Inr (NodeElement s a c) | _ \<Rightarrow> Inl (InstanceOfError ''tag'' t))))"

text \<open>
  \<^verbatim>\<open>class TelegraphResult\<close>: no validators; \<^verbatim>\<open>result\<close> and \<^verbatim>\<open>error\<close> default to
  \<^verbatim>\<open>None\<close>.
\<close>

record TelegraphResult =
  ok :: pyval
  result :: pyval
  error :: pyval

definition TelegraphResult_init :: "(string \<times> pyval) list \<Rightarrow> error + TelegraphResult" where
  "TelegraphResult_init kw =
     and_then (check_kwargs [''ok'', ''result'', ''error''] [''ok''] kw) (\<lambda>_.
     Inr \<lparr>ok = arg kw ''ok'', result = arg kw ''result'', error = arg kw ''error''\<rparr>)"

text \<open>
  \<^verbatim>\<open>class Page\<close>: \<^verbatim>\<open>path\<close>, \<^verbatim>\<open>url\<close>, \<^verbatim>\<open>title\<close> and \<^verbatim>\<open>description\<close> are
  required and validated with \<^verbatim>\<open>instance_of(str)\<close>; the other fields default to
  \<^verbatim>\<open>None\<close> and are not validated.
\<close>

record Page =
  path :: pyval
  url :: pyval
  title :: pyval
  description :: pyval
  author_name :: pyval
  author_url :: pyval
  image_url :: pyval
  content :: pyval
  views :: pyval
  can_edit :: pyval

definition Page_init :: "(string \<times> pyval) list \<Rightarrow> error + Page" where
  "Page_init kw =
     and_then (check_kwargs
       [''path'', ''url'', ''title'', ''description'', ''author_name'', ''author_url'',
        ''image_url'', ''content'', ''views'', ''can_edit'']
       [''path'', ''url'', ''title'', ''description''] kw) (\<lambda>_.
     and_then (instance_of_str ''path'' (arg kw ''path'')) (\<lambda>_.
     and_then (instance_of_str ''url'' (arg kw ''url'')) (\<lambda>_.
     and_then (instance_of_str ''title'' (arg kw ''title'')) (\<lambda>_.
     and_then (instance_of_str ''description'' (arg kw ''description'')) (\<lambda>_.
     Inr \<lparr>path = arg kw ''path'', url = arg kw ''url'', title = arg kw ''title'',
          description = arg kw ''description'', author_name = arg kw ''author_name'',
          author_url = arg kw ''author_url'', image_url = arg kw ''image_url'',
          content = arg kw ''content'', views = arg kw ''views'',
          can_edit = arg kw ''can_edit''\<rparr>)))))"

text \<open>
  \<^verbatim>\<open>class PageList\<close>. \<^verbatim>\<open>getPageList\<close> first stores the constructed pages under the
  key \<^verbatim>\<open>pages\<close> of the result dictionary and then calls \<^verbatim>\<open>PageList(**result)\<close>: \<open>kw\<close>
  is that dictionary and \<open>ps\<close> the pages stored in it.
\<close>

record PageList =
  total_count :: pyval
  pages :: "Page list"

definition PageList_init :: "(string \<times> pyval) list \<Rightarrow> Page list \<Rightarrow> error + PageList" where
  "PageList_init kw ps =
     and_then (check_kwargs [''total_count'', ''pages''] [''total_count'', ''pages''] kw) (\<lambda>_.
     and_then (instance_of_int ''total_count'' (arg kw ''total_count'')) (\<lambda>_.
     Inr \<lparr>total_count = arg kw ''total_count'', pages = ps\<rparr>))"

record PageViews =
  views :: pyval

definition PageViews_init :: "(string \<times> pyval) list \<Rightarrow> error + PageViews" where
  "PageViews_init kw =
     and_then (check_kwargs [''views''] [''views''] kw) (\<lambda>_.
     and_then (instance_of_int ''views'' (arg kw ''views'')) (\<lambda>_.
     Inr \<lparr>views = arg kw ''views''\<rparr>))"

text \<open>
  \<^verbatim>\<open>class Account\<close>. Validators run after all fields are set, in the order of the
  fields: \<^verbatim>\<open>short_name\<close> has \<^verbatim>\<open>[instance_of(str), length(min=1, max=32)]\<close>,
  \<^verbatim>\<open>author_name\<close> has \<^verbatim>\<open>optional(length(max=128))\<close>, \<^verbatim>\<open>author_url\<close> has
  \<^verbatim>\<open>optional(length(max=512))\<close>; \<^verbatim>\<open>access_token\<close>, \<^verbatim>\<open>auth_url\<close> and
  \<^verbatim>\<open>page_count\<close> have none, so they hold whatever they are given.
\<close>

record Account =
  short_name :: pyval
  author_name :: pyval
  author_url :: pyval
  access_token :: pyval
  auth_url :: pyval
  page_count :: pyval

definition Account_fields :: "string list" where
  "Account_fields =
     [''short_name'', ''author_name'', ''author_url'', ''access_token'', ''auth_url'',
      ''page_count'']"

definition Account_init :: "(string \<times> pyval) list \<Rightarrow> error + Account" where
  "Account_init kw =
     and_then (check_kwargs Account_fields [''short_name''] kw) (\<lambda>_.
     and_then (instance_of_str ''short_name'' (arg kw ''short_name'')) (\<lambda>_.
     and_then (length_validator (Some 1) (Some 32)) (\<lambda>v1.
     and_then (v1 ''short_name'' (arg kw ''short_name'')) (\<lambda>_.
     and_then (length_validator None (Some 128)) (\<lambda>v2.
     and_then (optional v2 ''author_name'' (arg kw ''author_name'')) (\<lambda>_.
     and_then (length_validator None (Some 512)) (\<lambda>v3.
     and_then (optional v3 ''author_url'' (arg kw ''author_url'')) (\<lambda>_.
     Inr \<lparr>short_name = arg kw ''short_name'', author_name = arg kw ''author_name'',
          author_url = arg kw ''author_url'', access_token = arg kw ''access_token'',
          auth_url = arg kw ''auth_url'', page_count = arg kw ''page_count''\<rparr>))))))))"

text \<open>The fields of an account by name (\<^verbatim>\<open>getattr\<close>), in the order of the class.\<close>

definition Account_items :: "Account \<Rightarrow> (string \<times> pyval) list" where
  "Account_items a =
     [(''short_name'', short_name a), (''author_name'', Account.author_name a),
      (''author_url'', Account.author_url a), (''access_token'', access_token a),
      (''auth_url'', auth_url a), (''page_count'', page_count a)]"

text \<open>
  \<^verbatim>\<open>attrs.evolve(inst, **changes)\<close>, as the attrs library defines it: every field of
  the class of \<^verbatim>\<open>inst\<close> that \<^verbatim>\<open>changes\<close> does not name is added to \<^verbatim>\<open>changes\<close> with
  its value in \<^verbatim>\<open>inst\<close>, and the class is called with the result, which runs the
  validators again. The class of \<^verbatim>\<open>None\<close> is not an attrs class.
\<close>

definition evolve :: "Account option \<Rightarrow> (string \<times> pyval) list \<Rightarrow> error + Account" where
  "evolve inst changes =
     (case inst of
        None \<Rightarrow> Inl NotAnAttrsClassError
      | Some a \<Rightarrow>
          Account_init
            (changes @ filter (\<lambda>(k, v). map_of changes k = None) (Account_items a)))"

section \<open>The client\<close>

text \<open>
  A form field of a request is a string. \<^verbatim>\<open>json.dumps(x)\<close> is kept as \<open>JsonDumps x\<close>:
  the encoder belongs to the standard library and no property below depends on the
  text it produces.
\<close>

datatype form_value = Str string | JsonDumps pyval

type_synonym payload = "(string \<times> form_value) list"

text \<open>
  The address of a request is \<^verbatim>\<open>str(URL(API_URL) / path)\<close>, where \<^verbatim>\<open>URL\<close> and its
  operator \<^verbatim>\<open>/\<close> belong to the yarl library: the operator percent-encodes the path and
  resolves its dot segments, so the address is not the concatenation of the two strings
  in general. It is kept as \<open>Slash base path\<close>, the base and the path that the operator
  is applied to. The operator raises only for a path that starts with a slash; every path
  of this module starts with the name of its operation.
\<close>

datatype URL = Slash string string

text \<open>
  The transport collaborator: \<^verbatim>\<open>session.post(str(url), data=data)\<close>,
  \<^verbatim>\<open>resp.raise_for_status()\<close> and \<^verbatim>\<open>resp.json()\<close> together either raise or give the
  decoded body. Whether the session is the caller's or one opened and closed for the call
  (\<^verbatim>\<open>self._session or aiohttp.ClientSession()\<close>) makes no difference to what is posted.
\<close>

type_synonym transport = "URL \<Rightarrow> payload \<Rightarrow> error + pyval"

text \<open>
  \<^verbatim>\<open>class Telegraph\<close> holds \<^verbatim>\<open>self.account\<close>, \<^verbatim>\<open>None\<close> after \<^verbatim>\<open>__init__\<close>. The field
  \<open>posts\<close> is not a field of the class: it is the record a transport stub keeps of the
  calls it received (address and form data, oldest first), so that "no network call" can be
  stated.
\<close>

record Telegraph =
  account :: "Account option"
  posts :: "(URL \<times> payload) list"

definition Telegraph_init :: Telegraph where
  "Telegraph_init = \<lparr>account = None, posts = []\<rparr>"

definition API_URL :: string where
  "API_URL = ''https://api.telegra.ph''"

text \<open>
  \<^verbatim>\<open>Telegraph._request(method, path, data)\<close>; \<^verbatim>\<open>method\<close> is not used by the body.
  The address is \<^verbatim>\<open>URL(API_URL) / path\<close>. \<^verbatim>\<open>except Exception as e: raise\<close>
  re-raises whatever was raised. Every method takes the transport first and the client last, and
  returns what it returns or raises together with the client after the call. The
  parameters of a method are bound by \<open>\<lambda>\<close>, which lets them keep their names in the
  source although fields of the entities have the same names.
\<close>

definition request ::
  "transport \<Rightarrow> string \<Rightarrow> payload \<Rightarrow> Telegraph \<Rightarrow> (error + TelegraphResult) \<times> Telegraph" where
  "request post = (\<lambda>path data s.
     let url = Slash API_URL path;
         s' = s\<lparr>posts := posts s @ [(url, data)]\<rparr>
     in (and_then (post url data) (\<lambda>result.
         and_then (getitem result ''ok'') (\<lambda>ok.
           if \<not> truthy ok then
             and_then (getitem result ''error'') (\<lambda>err. Inl (TelegraphError err))
           else and_then (kwargs_of result) TelegraphResult_init)), s'))"

text \<open>
  \<^verbatim>\<open>if x:\<close> for an optional string or list, and for an optional integer; and
  \<^verbatim>\<open>if x: data[k] = x\<close> for an optional string.
\<close>

definition given :: "'a list option \<Rightarrow> bool" where
  "given x = (case x of None \<Rightarrow> False | Some v \<Rightarrow> v \<noteq> [])"

definition nonzero :: "int option \<Rightarrow> bool" where
  "nonzero x = (case x of None \<Rightarrow> False | Some i \<Rightarrow> i \<noteq> 0)"

definition if_given :: "string \<Rightarrow> string option \<Rightarrow> payload" where
  "if_given k x = (if given x then [(k, Str (the x))] else [])"

definition createAccount ::
  "transport \<Rightarrow> string \<Rightarrow> string option \<Rightarrow> string option \<Rightarrow> Telegraph
     \<Rightarrow> (error + Account) \<times> Telegraph" where
  "createAccount post = (\<lambda>short_name author_name author_url s.
     let data = [(''short_name'', Str short_name)]
           @ if_given ''author_name'' author_name
           @ if_given ''author_url'' author_url
     in case request post ''createAccount'' data s of
          (Inl e, s') \<Rightarrow> (Inl e, s')
        | (Inr response, s') \<Rightarrow>
            (case and_then (kwargs_of (result response)) Account_init of
               Inl e \<Rightarrow> (Inl e, s')
             | Inr a \<Rightarrow> (Inr a, s'\<lparr>account := Some a\<rparr>)))"

definition editAccountInfo ::
  "transport \<Rightarrow> string \<Rightarrow> string option \<Rightarrow> string option \<Rightarrow> string option \<Rightarrow> Telegraph
     \<Rightarrow> (error + Account option) \<times> Telegraph" where
  "editAccountInfo post = (\<lambda>access_token short_name author_name author_url s.
     let data = [(''access_token'', Str access_token)]
           @ if_given ''short_name'' short_name
           @ if_given ''author_name'' author_name
           @ if_given ''author_url'' author_url
     in case request post ''editAccountInfo'' data s of
          (Inl e, s') \<Rightarrow> (Inl e, s')
        | (Inr response, s') \<Rightarrow>
            if truthy (result response) then
              (case and_then (kwargs_of (result response)) (evolve (account s')) of
                 Inl e \<Rightarrow> (Inl e, s')
               | Inr a \<Rightarrow> (Inr (Some a), s'\<lparr>account := Some a\<rparr>))
            else (Inr (account s'), s'))"

definition getAccountInfo ::
  "transport \<Rightarrow> string \<Rightarrow> string list option \<Rightarrow> Telegraph
     \<Rightarrow> (error + Account option) \<times> Telegraph" where
  "getAccountInfo post = (\<lambda>access_token fields s.
     let data = [(''access_token'', Str access_token)]
           @ (if given fields then [(''fields'', JsonDumps (PyList (map PyStr (the fields))))]
              else [])
     in case request post ''getAccountInfo'' data s of
          (Inl e, s') \<Rightarrow> (Inl e, s')
        | (Inr response, s') \<Rightarrow>
            if truthy (result response) then
              (case and_then (kwargs_of (result response)) (evolve (account s')) of
                 Inl e \<Rightarrow> (Inl e, s')
               | Inr a \<Rightarrow> (Inr (Some a), s'\<lparr>account := Some a\<rparr>))
            else (Inr (account s'), s'))"

definition revokeAccessToken ::
  "transport \<Rightarrow> string \<Rightarrow> Telegraph \<Rightarrow> (error + Account option) \<times> Telegraph" where
  "revokeAccessToken post = (\<lambda>access_token s.
     let data = [(''access_token'', Str access_token)]
     in case request post ''revokeAccessToken'' data s of
          (Inl e, s') \<Rightarrow> (Inl e, s')
        | (Inr response, s') \<Rightarrow>
            if truthy (result response) then
              (case and_then (get (result response) ''access_token'') (\<lambda>token.
                    and_then (get (result response) ''auth_url'') (\<lambda>auth.
                    evolve (account s') [(''access_token'', token), (''auth_url'', auth)])) of
                 Inl e \<Rightarrow> (Inl e, s')
               | Inr a \<Rightarrow> (Inr (Some a), s'\<lparr>account := Some a\<rparr>))
            else (Inr (account s'), s'))"

definition createPage ::
  "transport \<Rightarrow> string \<Rightarrow> string \<Rightarrow> child list \<Rightarrow> string option \<Rightarrow> string option \<Rightarrow> bool
     \<Rightarrow> Telegraph \<Rightarrow> (error + Page) \<times> Telegraph" where
  "createPage post = (\<lambda>access_token title content author_name author_url return_content s.
     if \<not> (1 \<le> length title \<and> length title \<le> 256) then
       (Inl (ValueError [Lit ''Title must be between 1 and 256 characters'']), s)
     else
       let data = [(''access_token'', Str access_token), (''title'', Str title),
                   (''content'', JsonDumps (PyList (map wire content))),
                   (''return_content'', Str (str_bool_lower return_content))]
       in if given author_name \<and> \<not> (0 \<le> length (the author_name) \<and> length (the author_name) \<le> 128) then
            (Inl (ValueError [Lit ''Author name must be between 0 and 128 characters'']), s)
          else
            let data = data @ if_given ''author_name'' author_name
            in if given author_url \<and> \<not> (0 \<le> length (the author_url) \<and> length (the author_url) \<le> 512) then
                 (Inl (ValueError [Lit ''Author URL must be between 0 and 512 characters'']), s)
               else
                 let data = data @ if_given ''author_url'' author_url
                 in case request post ''createPage'' data s of
                      (Inl e, s') \<Rightarrow> (Inl e, s')
                    | (Inr response, s') \<Rightarrow>
                        (and_then (kwargs_of (result response)) Page_init, s'))"

definition editPage ::
  "transport \<Rightarrow> string \<Rightarrow> string \<Rightarrow> string \<Rightarrow> child list \<Rightarrow> string option \<Rightarrow> string option \<Rightarrow> bool
     \<Rightarrow> Telegraph \<Rightarrow> (error + Page) \<times> Telegraph" where
  "editPage post = (\<lambda>access_token path title content author_name author_url return_content s.
     if \<not> (1 \<le> length title \<and> length title \<le> 256) then
       (Inl (ValueError [Lit ''Title must be between 1 and 256 characters'']), s)
     else
       let data = [(''access_token'', Str access_token), (''path'', Str path),
                   (''title'', Str title),
                   (''content'', JsonDumps (PyList (map wire content))),
                   (''return_content'', Str (str_bool_lower return_content))]
       in if given author_name \<and> \<not> (0 \<le> length (the author_name) \<and> length (the author_name) \<le> 128) then
            (Inl (ValueError [Lit ''Author name must be between 0 and 128 characters'']), s)
          else
            let data = data @ if_given ''author_name'' author_name
            in if given author_url \<and> \<not> (0 \<le> length (the author_url) \<and> length (the author_url) \<le> 512) then
                 (Inl (ValueError [Lit ''Author URL must be between 0 and 512 characters'']), s)
               else
                 let data = data @ if_given ''author_url'' author_url
                 in case request post (''editPage/'' @ path) data s of
                      (Inl e, s') \<Rightarrow> (Inl e, s')
                    | (Inr response, s') \<Rightarrow>
                        (and_then (kwargs_of (result response)) Page_init, s'))"

definition getPage ::
  "transport \<Rightarrow> string \<Rightarrow> bool \<Rightarrow> Telegraph \<Rightarrow> (error + Page) \<times> Telegraph" where
  "getPage post = (\<lambda>path return_content s.
     let data = [(''return_content'', Str (str_bool_lower return_content))]
     in case request post (''getPage/'' @ path) data s of
          (Inl e, s') \<Rightarrow> (Inl e, s')
        | (Inr response, s') \<Rightarrow> (and_then (kwargs_of (result response)) Page_init, s'))"

text \<open>
  In \<^verbatim>\<open>getPageList\<close>, \<^verbatim>\<open>response.result["pages"]\<close> is read, iterated over, each item
  passed to \<^verbatim>\<open>Page(**page)\<close>, and the list stored back under the same key before
  \<^verbatim>\<open>PageList(**response.result)\<close>.
\<close>

definition getPageList ::
  "transport \<Rightarrow> string \<Rightarrow> int \<Rightarrow> int \<Rightarrow> Telegraph \<Rightarrow> (error + PageList) \<times> Telegraph" where
  "getPageList post = (\<lambda>access_token offset limit s.
     if \<not> 0 \<le> offset then
       (Inl (ValueError [Lit ''Offset must be a non-negative integer'']), s)
     else if \<not> (0 \<le> limit \<and> limit \<le> 200) then
       (Inl (ValueError [Lit ''Limit must be between 0 and 200'']), s)
     else
       let data = [(''access_token'', Str access_token), (''offset'', Str (str_int offset)),
                   (''limit'', Str (str_int limit))]
       in case request post ''getPageList'' data s of
            (Inl e, s') \<Rightarrow> (Inl e, s')
          | (Inr response, s') \<Rightarrow>
              (and_then (getitem (result response) ''pages'') (\<lambda>listed.
               and_then (iter listed) (\<lambda>items.
               and_then (map_e (\<lambda>page. and_then (kwargs_of page) Page_init) items) (\<lambda>ps.
               and_then (kwargs_of (result response)) (\<lambda>kw. PageList_init kw ps)))), s'))"

definition getViews ::
  "transport \<Rightarrow> string \<Rightarrow> int option \<Rightarrow> int option \<Rightarrow> int option \<Rightarrow> int option \<Rightarrow> Telegraph
     \<Rightarrow> (error + PageViews) \<times> Telegraph" where
  "getViews post = (\<lambda>path year month day hour s.
     let data = []
     in if nonzero year \<and> \<not> (2000 \<le> the year \<and> the year \<le> 2100) then
          (Inl (ValueError [Lit ''Year must be between 2000 and 2100'']), s)
        else
          let data = data @ (if nonzero year then [(''year'', Str (str_int (the year)))] else [])
          in if nonzero month \<and> \<not> (1 \<le> the month \<and> the month \<le> 12) then
               (Inl (ValueError [Lit ''Month must be between 1 and 12'']), s)
             else
               let data = data @ (if nonzero month then [(''month'', Str (str_int (the month)))] else [])
               in if nonzero day \<and> \<not> (1 \<le> the day \<and> the day \<le> 31) then
                    (Inl (ValueError [Lit ''Day must be between 1 and 31'']), s)
                  else
                    let data = data @ (if nonzero day then [(''day'', Str (str_int (the day)))] else [])
                    in if nonzero hour \<and> \<not> (0 \<le> the hour \<and> the hour \<le> 24) then
                         (Inl (ValueError [Lit ''Hour must be between 0 and 24'']), s)
                       else
                         let data = data @ (if nonzero hour then [(''hour'', Str (str_int (the hour)))] else [])
                         in case request post (''getViews/'' @ path) data s of
                              (Inl e, s') \<Rightarrow> (Inl e, s')
                            | (Inr response, s') \<Rightarrow>
                                (and_then (kwargs_of (result response)) PageViews_init, s'))"

subsection \<open>Every operation\<close>

text \<open>
  One constructor for each public method with its arguments, and what a call returns, so
  that a property of every operation is one statement.
\<close>

datatype call =
    CreateAccount string "string option" "string option"
  | EditAccountInfo string "string option" "string option" "string option"
  | GetAccountInfo string "string list option"
  | RevokeAccessToken string
  | CreatePage string string "child list" "string option" "string option" bool
  | EditPage string string string "child list" "string option" "string option" bool
  | GetPage string bool
  | GetPageList string int int
  | GetViews string "int option" "int option" "int option" "int option"

datatype reply =
    AccountReply "Account option"
  | PageReply Page
  | PageListReply PageList
  | PageViewsReply PageViews

definition returning :: "('a \<Rightarrow> reply) \<Rightarrow> (error + 'a) \<times> Telegraph \<Rightarrow> (error + reply) \<times> Telegraph" where
  "returning f r = (map_sum id f (fst r), snd r)"

fun run :: "transport \<Rightarrow> call \<Rightarrow> Telegraph \<Rightarrow> (error + reply) \<times> Telegraph" where
  "run post (CreateAccount sn an au) s =
     returning (\<lambda>a. AccountReply (Some a)) (createAccount post sn an au s)"
| "run post (EditAccountInfo tok sn an au) s =
     returning AccountReply (editAccountInfo post tok sn an au s)"
| "run post (GetAccountInfo tok fs) s = returning AccountReply (getAccountInfo post tok fs s)"
| "run post (RevokeAccessToken tok) s = returning AccountReply (revokeAccessToken post tok s)"
| "run post (CreatePage tok t c an au rc) s =
     returning PageReply (createPage post tok t c an au rc s)"
| "run post (EditPage tok p t c an au rc) s =
     returning PageReply (editPage post tok p t c an au rc s)"
| "run post (GetPage p rc) s = returning PageReply (getPage post p rc s)"
| "run post (GetPageList tok off lim) s =
     returning PageListReply (getPageList post tok off lim s)"
| "run post (GetViews p y m d h) s = returning PageViewsReply (getViews post p y m d h s)"

section \<open>Basic facts\<close>

lemma and_then_Inl [simp]: "and_then (Inl e) f = Inl e"
  by (simp add: and_then_def)

lemma and_then_Inr [simp]: "and_then (Inr x) f = f x"
  by (simp add: and_then_def)

lemma str_nat_one_digit: "n < 10 \<Longrightarrow> str_nat n = [digit n]"
  by (simp add: str_nat.simps)

lemma str_nat_more_digits: "\<not> n < 10 \<Longrightarrow> str_nat n = str_nat (n div 10) @ [digit (n mod 10)]"
  by (subst str_nat.simps) simp

section \<open>Serialization of content nodes\<close>

text \<open>
  C1. \<^verbatim>\<open>NodeElement.to_dict\<close> gives a dictionary in which the key \<^verbatim>\<open>tag\<close> is always
  present and holds the tag; the key \<^verbatim>\<open>attrs\<close> is present exactly when the attrs map
  is neither \<^verbatim>\<open>None\<close> nor empty, and then holds that map; the key \<^verbatim>\<open>children\<close> is
  present exactly when the children list is neither \<^verbatim>\<open>None\<close> nor empty, and then holds
  the list of the transformed children; there is no other key. A string child is passed
  through as the bare string, an element child is transformed by \<^verbatim>\<open>to_dict\<close> again.
  The statement has no precondition: \<open>to_dict\<close> is a total function of the tree (its
  recursion terminates on every tree) and reads nothing but the tree.
\<close>

theorem to_dict_wire_form:
  "map_of (to_dict n) ''tag'' = Some (PyStr (tag n))
   \<and> (''attrs'' \<in> fst ` set (to_dict n)) = (attrs n \<noteq> None \<and> attrs n \<noteq> Some [])
   \<and> (''children'' \<in> fst ` set (to_dict n)) = (children n \<noteq> None \<and> children n \<noteq> Some [])
   \<and> map_of (to_dict n) ''attrs'' =
       (if attrs n \<noteq> None \<and> attrs n \<noteq> Some []
        then Some (PyDict (map (\<lambda>(k, v). (k, PyStr v)) (the (attrs n)))) else None)
   \<and> map_of (to_dict n) ''children'' =
       (if children n \<noteq> None \<and> children n \<noteq> Some []
        then Some (PyList (map wire (the (children n)))) else None)
   \<and> fst ` set (to_dict n) \<subseteq> {''tag'', ''attrs'', ''children''}
   \<and> wire (Text s) = PyStr s
   \<and> wire (Element n) = PyDict (to_dict n)"
  by (cases n) (auto split: option.splits)

text \<open>
  An instance: a paragraph with an empty attrs map, a text child and a link child. The
  empty attrs map leaves no \<^verbatim>\<open>attrs\<close> key; the link has no \<^verbatim>\<open>children\<close> key.
\<close>

theorem to_dict_wire_form_witness:
  "to_dict (NodeElement ''p'' (Some [])
       (Some [Text ''hi'', Element (NodeElement ''a'' (Some [(''href'', ''x'')]) None)]))
     = [(''tag'', PyStr ''p''),
        (''children'', PyList [PyStr ''hi'',
           PyDict [(''tag'', PyStr ''a''), (''attrs'', PyDict [(''href'', PyStr ''x'')])]])]
   \<and> map_of (to_dict (NodeElement ''p'' (Some []) (Some [Text ''hi'']))) ''attrs'' = None
   \<and> map_of (to_dict (NodeElement ''p'' (Some []) (Some [Text ''hi'']))) ''children''
       = Some (PyList [PyStr ''hi''])"
  using to_dict_wire_form [of "NodeElement ''p'' (Some []) (Some [Text ''hi''])" "''hi''"]
  by simp

section \<open>The allowed tags\<close>

text \<open>
  C2, as the code has it. \<^verbatim>\<open>ALLOWED_TAGS\<close> has exactly 24 members. Constructing a
  \<^verbatim>\<open>NodeElement\<close> with a string tag succeeds exactly when the tag is a member, and
  otherwise fails with the \<^verbatim>\<open>ValueError\<close> of the \<^verbatim>\<open>in_\<close> validator; so it does for
  the tag \<^verbatim>\<open>script\<close>. A tag that is not a string fails with the \<^verbatim>\<open>TypeError\<close> of
  \<^verbatim>\<open>instance_of(str)\<close>.
\<close>

theorem NodeElement_init_tag_check:
  "card ALLOWED_TAGS = 24
   \<and> NodeElement_init (PyStr ''script'') a c = Inl (NotInError ''tag'' (PyStr ''script''))
   \<and> NodeElement_init (PyStr t) a c =
       (if t \<in> ALLOWED_TAGS then Inr (NodeElement t a c) else Inl (NotInError ''tag'' (PyStr t)))
   \<and> ((\<forall>t. v \<noteq> PyStr t) \<longrightarrow> NodeElement_init v a c = Inl (InstanceOfError ''tag'' v))"
proof -
  have "card ALLOWED_TAGS = 24"
    unfolding ALLOWED_TAGS_def by (simp add: card_insert_if)
  moreover have "NodeElement_init (PyStr t) a c =
       (if t \<in> ALLOWED_TAGS then Inr (NodeElement t a c) else Inl (NotInError ''tag'' (PyStr t)))" for t
    by (simp add: NodeElement_init_def instance_of_str_def in_options_def)
  moreover have "''script'' \<notin> ALLOWED_TAGS"
    by (simp add: ALLOWED_TAGS_def)
  moreover have "(\<forall>t. v \<noteq> PyStr t) \<longrightarrow> NodeElement_init v a c = Inl (InstanceOfError ''tag'' v)"
    by (cases v) (simp_all add: NodeElement_init_def instance_of_str_def)
  ultimately show ?thesis by simp
qed

text \<open>Instances: the member \<^verbatim>\<open>video\<close>, the non-member \<^verbatim>\<open>div\<close>, and a tag that is a number.\<close>

theorem NodeElement_init_tag_check_witness:
  "NodeElement_init (PyStr ''video'') None (Some [Text ''x''])
     = Inr (NodeElement ''video'' None (Some [Text ''x'']))
   \<and> NodeElement_init (PyStr ''div'') None (Some [Text ''x''])
     = Inl (NotInError ''tag'' (PyStr ''div''))
   \<and> NodeElement_init (PyInt 7) None (Some [Text ''x'']) = Inl (InstanceOfError ''tag'' (PyInt 7))"
  using NodeElement_init_tag_check [of "None" "Some [Text ''x'']" "''video''" "PyInt 7"]
    NodeElement_init_tag_check [of "None" "Some [Text ''x'']" "''div''" "PyInt 7"]
  by (simp add: ALLOWED_TAGS_def)

text \<open>The number of allowed tags is not 21.\<close>

theorem allowed_tags_count_counterexample: "card ALLOWED_TAGS \<noteq> 21"
  unfolding ALLOWED_TAGS_def by (simp add: card_insert_if)

section \<open>The length validator\<close>

text \<open>
  C6. Whenever \<^verbatim>\<open>length(min, max)\<close> returns a validator (it does unless both bounds
  are \<^verbatim>\<open>None\<close>), that validator accepts \<^verbatim>\<open>None\<close>; it accepts a string exactly when the
  length of the string is at least the minimum, if one is given, and at most the maximum,
  if one is given; a string it does not accept raises a \<^verbatim>\<open>ValueError\<close> whose message
  contains the name of the attribute; and a value that is neither \<^verbatim>\<open>None\<close> nor a
  string raises a \<^verbatim>\<open>TypeError\<close>.
\<close>

theorem length_validator_checks:
  assumes "length_validator mn mx = Inr v"
  shows "v name PyNone = Inr ()
   \<and> ((v name (PyStr s) = Inr ()) =
        ((\<forall>m. mn = Some m \<longrightarrow> m \<le> int (length s)) \<and> (\<forall>m. mx = Some m \<longrightarrow> int (length s) \<le> m)))
   \<and> (v name (PyStr s) \<noteq> Inr () \<longrightarrow>
        (\<exists>msg. v name (PyStr s) = Inl (ValueError msg) \<and> Lit name \<in> set msg))
   \<and> (x \<noteq> PyNone \<and> (\<forall>t. x \<noteq> PyStr t) \<longrightarrow> (\<exists>msg. v name x = Inl (TypeError msg)))"
proof -
  from assms have v: "v = validate mn mx"
    by (auto simp: length_validator_def split: if_splits)
  have "x \<noteq> PyNone \<and> (\<forall>t. x \<noteq> PyStr t) \<longrightarrow> (\<exists>msg. v name x = Inl (TypeError msg))"
    unfolding v by (cases x) (simp_all add: validate_def)
  moreover have "v name PyNone = Inr ()"
    unfolding v by (simp add: validate_def)
  moreover have "(v name (PyStr s) = Inr ()) =
        ((\<forall>m. mn = Some m \<longrightarrow> m \<le> int (length s)) \<and> (\<forall>m. mx = Some m \<longrightarrow> int (length s) \<le> m))"
    unfolding v by (cases mn; cases mx) (auto simp: validate_def)
  moreover have "v name (PyStr s) \<noteq> Inr () \<longrightarrow>
        (\<exists>msg. v name (PyStr s) = Inl (ValueError msg) \<and> Lit name \<in> set msg)"
    unfolding v by (simp add: validate_def)
  ultimately show ?thesis by blast
qed

text \<open>
  An instance: the validator of \<^verbatim>\<open>Account.short_name\<close>, \<^verbatim>\<open>length(min=1, max=32)\<close>, on
  \<^verbatim>\<open>None\<close>, on a name of seven characters, on the empty name and on a number.
\<close>

theorem length_validator_checks_witness:
  "length_validator (Some 1) (Some 32) = Inr (validate (Some 1) (Some 32))
   \<and> validate (Some 1) (Some 32) ''short_name'' PyNone = Inr ()
   \<and> validate (Some 1) (Some 32) ''short_name'' (PyStr ''Sandbox'') = Inr ()
   \<and> validate (Some 1) (Some 32) ''short_name'' (PyStr [])
       = Inl (ValueError [Lit ''The attribute '', Lit ''short_name'',
            Lit '' length must be at least '', Lit ''1'', Lit '' (got '', Lit ''0'', Lit '').''])
   \<and> (\<exists>msg. validate (Some 1) (Some 32) ''short_name'' (PyInt 5) = Inl (TypeError msg))"
proof -
  have h: "length_validator (Some 1) (Some 32) = Inr (validate (Some 1) (Some 32))"
    by (simp add: length_validator_def)
  have "validate (Some 1) (Some 32) ''short_name'' (PyStr [])
       = Inl (ValueError [Lit ''The attribute '', Lit ''short_name'',
            Lit '' length must be at least '', Lit ''1'', Lit '' (got '', Lit ''0'', Lit '').''])"
    by (simp add: validate_def str_int_def str_nat_one_digit digit_def)
  then show ?thesis
    using h length_validator_checks [OF h, of "''short_name''" "''Sandbox''" "PyInt 5"]
    by simp
qed

section \<open>Requests\<close>



lemma request_snd:
  "snd (request post p d s) = s\<lparr>posts := posts s @ [(Slash API_URL p, d)]\<rparr>"
  by (simp add: request_def Let_def)

lemma request_fst:
  "fst (request post p d s) =
     and_then (post (Slash API_URL p) d) (\<lambda>r.
     and_then (getitem r ''ok'') (\<lambda>okv.
       if \<not> truthy okv then and_then (getitem r ''error'') (\<lambda>err. Inl (TelegraphError err))
       else and_then (kwargs_of r) TelegraphResult_init))"
  by (simp add: request_def Let_def)

lemma request_state:
  assumes "request post p d s = (r, s')"
  shows "account s' = account s" and "posts s' = posts s @ [(Slash API_URL p, d)]"
  using assms request_snd [of post p d s] by auto

lemma getitem_PyDict: "getitem (PyDict env) k = (case map_of env k of Some v \<Rightarrow> Inr v | None \<Rightarrow> Inl (KeyError k))"
  by (simp add: getitem_def)




lemma createAccount_failure:
  "createAccount post sn an au s = (Inl e, s') \<Longrightarrow> account s' = account s"
  by (auto simp: createAccount_def Let_def split: prod.splits sum.splits dest: request_state)

lemma editAccountInfo_failure:
  "editAccountInfo post tok sn an au s = (Inl e, s') \<Longrightarrow> account s' = account s"
  by (auto simp: editAccountInfo_def Let_def split: prod.splits sum.splits if_splits dest: request_state)

lemma getAccountInfo_failure:
  "getAccountInfo post tok fs s = (Inl e, s') \<Longrightarrow> account s' = account s"
  by (auto simp: getAccountInfo_def Let_def split: prod.splits sum.splits if_splits dest: request_state)

lemma revokeAccessToken_failure:
  "revokeAccessToken post tok s = (Inl e, s') \<Longrightarrow> account s' = account s"
  by (auto simp: revokeAccessToken_def Let_def split: prod.splits sum.splits if_splits dest: request_state)

lemma createPage_account:
  "createPage post tok t c an au rc s = (r, s') \<Longrightarrow> account s' = account s"
  by (auto simp: createPage_def Let_def split: prod.splits sum.splits if_splits dest: request_state)

lemma editPage_account:
  "editPage post tok p t c an au rc s = (r, s') \<Longrightarrow> account s' = account s"
  by (auto simp: editPage_def Let_def split: prod.splits sum.splits if_splits dest: request_state)

lemma getPage_account:
  "getPage post p rc s = (r, s') \<Longrightarrow> account s' = account s"
  by (auto simp: getPage_def Let_def split: prod.splits sum.splits if_splits dest: request_state)

lemma getPageList_account:
  "getPageList post tok off lim s = (r, s') \<Longrightarrow> account s' = account s"
  by (auto simp: getPageList_def Let_def split: prod.splits sum.splits if_splits dest: request_state)

lemma getViews_account:
  "getViews post p y m d h s = (r, s') \<Longrightarrow> account s' = account s"
  by (auto simp: getViews_def Let_def split: prod.splits sum.splits if_splits dest: request_state)

lemma returning_Inl: "fst (returning f r) = Inl e \<longleftrightarrow> fst r = Inl e"
  by (cases "fst r") (simp_all add: returning_def)

lemma returning_snd: "snd (returning f r) = snd r"
  by (simp add: returning_def)

text \<open>The definitions that a concrete call unfolds to.\<close>

lemmas client_defs =
  returning_def request_def Let_def API_URL_def if_given_def given_def nonzero_def
  getitem_def get_def iter_def kwargs_of_def arg_def check_kwargs_def
  TelegraphResult_init_def Account_init_def Account_fields_def Account_items_def evolve_def
  Page_init_def PageList_init_def PageViews_init_def
  instance_of_str_def instance_of_int_def length_validator_def validate_def optional_def
  str_int_def str_bool_lower_def str_nat_one_digit str_nat_more_digits digit_def

section \<open>Failure leaves the held account alone\<close>

text \<open>
  C9. If an operation fails, whatever the error (a check of the arguments, the transport,
  an \<^verbatim>\<open>ok\<close> that is false, a response that does not decode, a validator of
  \<^verbatim>\<open>Account\<close>), the held account \<^verbatim>\<open>self.account\<close> after the call is the one before
  the call: \<^verbatim>\<open>self.account\<close> is assigned only after everything that can raise.
\<close>

theorem failure_keeps_account:
  assumes "fst (run post c s) = Inl e"
  shows "account (snd (run post c s)) = account s"
proof (cases c)
  case (CreateAccount sn an au)
  with assms show ?thesis
    using createAccount_failure [of post sn an au s e "snd (createAccount post sn an au s)"]
    by (simp add: returning_Inl returning_snd prod_eq_iff)
next
  case (EditAccountInfo tok sn an au)
  with assms show ?thesis
    using editAccountInfo_failure [of post tok sn an au s e "snd (editAccountInfo post tok sn an au s)"]
    by (simp add: returning_Inl returning_snd prod_eq_iff)
next
  case (GetAccountInfo tok fs)
  with assms show ?thesis
    using getAccountInfo_failure [of post tok fs s e "snd (getAccountInfo post tok fs s)"]
    by (simp add: returning_Inl returning_snd prod_eq_iff)
next
  case (RevokeAccessToken tok)
  with assms show ?thesis
    using revokeAccessToken_failure [of post tok s e "snd (revokeAccessToken post tok s)"]
    by (simp add: returning_Inl returning_snd prod_eq_iff)
next
  case (CreatePage tok t c an au rc)
  then show ?thesis
    using createPage_account [OF surjective_pairing] by (simp add: returning_snd)
next
  case (EditPage tok p t c an au rc)
  then show ?thesis
    using editPage_account [OF surjective_pairing] by (simp add: returning_snd)
next
  case (GetPage p rc)
  then show ?thesis
    using getPage_account [OF surjective_pairing] by (simp add: returning_snd)
next
  case (GetPageList tok off lim)
  then show ?thesis
    using getPageList_account [OF surjective_pairing] by (simp add: returning_snd)
next
  case (GetViews p y m d h)
  then show ?thesis
    using getViews_account [OF surjective_pairing] by (simp add: returning_snd)
qed

text \<open>
  An instance: the client holds an account, and \<^verbatim>\<open>editAccountInfo\<close> receives
  \<^verbatim>\<open>{"ok": true, "result": {"short_name": ""}}\<close>. The transport has been called, the
  validator of \<^verbatim>\<open>short_name\<close> rejects the evolved account, and the held account stays.
\<close>

theorem failure_keeps_account_witness:
  "run (\<lambda>u d. Inr (PyDict [(''ok'', PyBool True), (''result'', PyDict [(''short_name'', PyStr [])])]))
     (EditAccountInfo ''T1'' None None None)
     \<lparr>account = Some \<lparr>short_name = PyStr ''Sandbox'', author_name = PyNone, author_url = PyNone,
        access_token = PyStr ''T1'', auth_url = PyNone, page_count = PyNone\<rparr>, posts = []\<rparr>
   = (Inl (ValueError [Lit ''The attribute '', Lit ''short_name'',
            Lit '' length must be at least '', Lit ''1'', Lit '' (got '', Lit ''0'', Lit '').'']),
      \<lparr>account = Some \<lparr>short_name = PyStr ''Sandbox'', author_name = PyNone, author_url = PyNone,
        access_token = PyStr ''T1'', auth_url = PyNone, page_count = PyNone\<rparr>,
       posts = [(Slash ''https://api.telegra.ph'' ''editAccountInfo'', [(''access_token'', Str ''T1'')])]\<rparr>)"
proof -
  let ?post = "\<lambda>u d. Inr (PyDict [(''ok'', PyBool True), (''result'', PyDict [(''short_name'', PyStr [])])])"
  let ?s = "\<lparr>account = Some \<lparr>short_name = PyStr ''Sandbox'', author_name = PyNone, author_url = PyNone,
        access_token = PyStr ''T1'', auth_url = PyNone, page_count = PyNone\<rparr>, posts = []\<rparr>"
  have r: "fst (run ?post (EditAccountInfo ''T1'' None None None) ?s)
      = Inl (ValueError [Lit ''The attribute '', Lit ''short_name'',
            Lit '' length must be at least '', Lit ''1'', Lit '' (got '', Lit ''0'', Lit '').''])"
    by (simp add: editAccountInfo_def client_defs)
  have p: "posts (snd (run ?post (EditAccountInfo ''T1'' None None None) ?s))
      = [(Slash ''https://api.telegra.ph'' ''editAccountInfo'', [(''access_token'', Str ''T1'')])]"
    by (simp add: editAccountInfo_def client_defs)
  from failure_keeps_account [OF r] r p show ?thesis
    by (simp add: prod_eq_iff Telegraph.equality)
qed

section \<open>What an operation does with the response\<close>


















lemma kwargs_of_PyDict: "kwargs_of (PyDict env) = Inr env"
  by (simp add: kwargs_of_def)


lemma createPage_invalid:
  assumes "\<not> (1 \<le> length t \<and> length t \<le> 256)
           \<or> (given an \<and> 128 < length (the an))
           \<or> (given au \<and> 512 < length (the au))"
  shows "\<exists>msg. createPage post tok t c an au rc s = (Inl (ValueError msg), s)"
  using assms by (auto simp: createPage_def Let_def)


lemma editPage_invalid:
  assumes "\<not> (1 \<le> length t \<and> length t \<le> 256)
           \<or> (given an \<and> 128 < length (the an))
           \<or> (given au \<and> 512 < length (the au))"
  shows "\<exists>msg. editPage post tok p t c an au rc s = (Inl (ValueError msg), s)"
  using assms by (auto simp: editPage_def Let_def)


lemma getPageList_invalid:
  assumes "off < 0 \<or> lim < 0 \<or> 200 < lim"
  shows "\<exists>msg. getPageList post tok off lim s = (Inl (ValueError msg), s)"
  using assms by (auto simp: getPageList_def Let_def)


lemma getViews_invalid:
  assumes "(nonzero y \<and> \<not> (2000 \<le> the y \<and> the y \<le> 2100))
           \<or> (nonzero m \<and> \<not> (1 \<le> the m \<and> the m \<le> 12))
           \<or> (nonzero dd \<and> \<not> (1 \<le> the dd \<and> the dd \<le> 31))
           \<or> (nonzero h \<and> \<not> (0 \<le> the h \<and> the h \<le> 24))"
  shows "\<exists>msg. getViews post p y m dd h s = (Inl (ValueError msg), s)"
  using assms by (auto simp: getViews_def Let_def)

lemma getViews_valid:
  assumes "\<not> ((nonzero y \<and> \<not> (2000 \<le> the y \<and> the y \<le> 2100))
               \<or> (nonzero m \<and> \<not> (1 \<le> the m \<and> the m \<le> 12))
               \<or> (nonzero dd \<and> \<not> (1 \<le> the dd \<and> the dd \<le> 31))
               \<or> (nonzero h \<and> \<not> (0 \<le> the h \<and> the h \<le> 24)))"
  shows "getViews post p y m dd h s =
     (case request post (''getViews/'' @ p)
              ((if nonzero y then [(''year'', Str (str_int (the y)))] else [])
               @ (if nonzero m then [(''month'', Str (str_int (the m)))] else [])
               @ (if nonzero dd then [(''day'', Str (str_int (the dd)))] else [])
               @ (if nonzero h then [(''hour'', Str (str_int (the h)))] else [])) s of
        (Inl e, s') \<Rightarrow> (Inl e, s')
      | (Inr response, s') \<Rightarrow> (and_then (kwargs_of (result response)) PageViews_init, s'))"
  using assms by (auto simp: getViews_def Let_def)










lemma returning_fst: "fst (returning f r) = map_sum id f (fst r)"
  by (simp add: returning_def)



lemma request_success:
  assumes "post (Slash API_URL p) d = Inr (PyDict env)" and "map_of env ''ok'' = Some okv"
    and "truthy okv" and "fst ` set env \<subseteq> {''ok'', ''result'', ''error''}"
  shows "fst (request post p d s)
     = Inr \<lparr>ok = okv, result = arg env ''result'', error = arg env ''error''\<rparr>"
proof -
  have "find (\<lambda>k. k \<notin> set [''ok'', ''result'', ''error'']) (map fst env) = None"
    using assms(4) by (auto simp: find_None_iff)
  then have "TelegraphResult_init env
      = Inr \<lparr>ok = okv, result = arg env ''result'', error = arg env ''error''\<rparr>"
    using assms(2) by (simp add: TelegraphResult_init_def check_kwargs_def arg_def)
  with assms(1-3) show ?thesis
    by (simp add: request_fst getitem_PyDict kwargs_of_PyDict)
qed

section \<open>What an operation returns\<close>

lemma request_ok:
  assumes "post (Slash API_URL p) d = Inr (PyDict env)" and "map_of env ''ok'' = Some okv"
    and "truthy okv" and "fst ` set env \<subseteq> {''ok'', ''result'', ''error''}"
  shows "request post p d s
     = (Inr \<lparr>ok = okv, result = arg env ''result'', error = arg env ''error''\<rparr>,
        s\<lparr>posts := posts s @ [(Slash API_URL p, d)]\<rparr>)"
  using request_success [of post p d env okv s] assms request_snd [of post p d s]
  by (simp add: prod_eq_iff)

lemma after_request_posts:
  assumes "\<And>resp s1. posts (snd (G resp s1)) = posts s1"
  shows "posts (snd (case request post p d s of
                       (Inl e, s1) \<Rightarrow> (Inl e, s1)
                     | (Inr response, s1) \<Rightarrow> G response s1))
           = posts s @ [(Slash API_URL p, d)]"
proof -
  obtain r0 s0 where r0: "request post p d s = (r0, s0)"
    by (cases "request post p d s")
  from request_state(2) [OF r0] r0 show ?thesis
    by (cases r0) (simp_all add: assms)
qed

lemma truthy_arg: "truthy (arg env k) \<Longrightarrow> \<exists>v. map_of env k = Some v \<and> truthy v \<and> arg env k = v"
  by (cases "map_of env k") (simp_all add: arg_def)












section \<open>Remote errors\<close>



section \<open>Arguments are checked before the request\<close>

text \<open>
  C5. If the length of the title is outside [1, 256], or an author name is given and is
  longer than 128, or an author URL is given and is longer than 512, then
  \<^verbatim>\<open>createPage\<close> and \<^verbatim>\<open>editPage\<close> raise a \<^verbatim>\<open>ValueError\<close>, and the client and the
  record of the requests posted are as before the call: the transport was not called.
\<close>

theorem page_arguments_checked:
  assumes "\<not> (1 \<le> length t \<and> length t \<le> 256)
           \<or> (\<exists>n. an = Some n \<and> 128 < length n)
           \<or> (\<exists>w. au = Some w \<and> 512 < length w)"
  shows "(\<exists>msg. createPage post tok t c an au rc s = (Inl (ValueError msg), s))
       \<and> (\<exists>msg. editPage post tok p t c an au rc s = (Inl (ValueError msg), s))"
proof -
  from assms
  have "\<not> (1 \<le> length t \<and> length t \<le> 256) \<or> (given an \<and> 128 < length (the an))
          \<or> (given au \<and> 512 < length (the au))"
    by (auto simp: given_def)
  then show ?thesis
    using createPage_invalid editPage_invalid by blast
qed

text \<open>
  Instances: an empty title for \<^verbatim>\<open>createPage\<close>, and an author name of 129 characters
  for \<^verbatim>\<open>editPage\<close>.
\<close>

theorem page_arguments_checked_witness:
  "createPage (\<lambda>u d. Inl (TransportError ''unreachable'')) ''T1'' '''' [Text ''Hello''] None None False
      Telegraph_init
     = (Inl (ValueError [Lit ''Title must be between 1 and 256 characters'']), Telegraph_init)
   \<and> editPage (\<lambda>u d. Inl (TransportError ''unreachable'')) ''T1'' ''Sample-Page-12-15'' ''Title''
        [Text ''Hello''] (Some (replicate 129 CHR ''a'')) None False Telegraph_init
     = (Inl (ValueError [Lit ''Author name must be between 0 and 128 characters'']), Telegraph_init)"
proof -
  have a: "(\<exists>n. Some (replicate 129 CHR ''a'') = Some n \<and> 128 < length n)"
    by simp
  from page_arguments_checked [of "''''" None None "\<lambda>u d. Inl (TransportError ''unreachable'')" "''T1''"
      "[Text ''Hello'']" False Telegraph_init]
  have "\<exists>msg. createPage (\<lambda>u d. Inl (TransportError ''unreachable'')) ''T1'' '''' [Text ''Hello'']
      None None False Telegraph_init = (Inl (ValueError msg), Telegraph_init)"
    by simp
  moreover
  from page_arguments_checked [of "''Title''" "Some (replicate 129 CHR ''a'')" None
      "\<lambda>u d. Inl (TransportError ''unreachable'')" "''T1''" "[Text ''Hello'']" False Telegraph_init
      "''Sample-Page-12-15''"] a
  have "\<exists>msg. editPage (\<lambda>u d. Inl (TransportError ''unreachable'')) ''T1'' ''Sample-Page-12-15'' ''Title''
        [Text ''Hello''] (Some (replicate 129 CHR ''a'')) None False Telegraph_init
       = (Inl (ValueError msg), Telegraph_init)"
    by blast
  ultimately show ?thesis
    by (auto simp: createPage_def editPage_def Let_def given_def)
qed

text \<open>
  C7. \<^verbatim>\<open>getPageList\<close> with a negative offset, or with a limit outside [0, 200],
  raises a \<^verbatim>\<open>ValueError\<close> and leaves the record of the requests posted as it was. With
  offset 0 and limit 200, against a transport that answers that request with
  \<^verbatim>\<open>{"ok": true, "result": {"total_count": 0, "pages": []}}\<close>, it posts one request and
  returns the \<^verbatim>\<open>PageList\<close> with \<^verbatim>\<open>total_count\<close> 0 and no pages.
\<close>

theorem getPageList_checked:
  "(off < 0 \<or> lim < 0 \<or> 200 < lim \<longrightarrow>
      (\<exists>msg. getPageList post tok off lim s = (Inl (ValueError msg), s)))
   \<and> (post (Slash API_URL ''getPageList'')
          [(''access_token'', Str tok), (''offset'', Str ''0''), (''limit'', Str ''200'')]
        = Inr (PyDict [(''ok'', PyBool True),
                       (''result'', PyDict [(''total_count'', PyInt 0), (''pages'', PyList [])])]) \<longrightarrow>
      getPageList post tok 0 200 s
        = (Inr \<lparr>total_count = PyInt 0, pages = []\<rparr>,
           s\<lparr>posts := posts s @ [(Slash API_URL ''getPageList'',
              [(''access_token'', Str tok), (''offset'', Str ''0''), (''limit'', Str ''200'')])]\<rparr>))"
proof -
  have s0: "str_int 0 = ''0''" and s200: "str_int 200 = ''200''"
    by (simp_all add: str_int_def str_nat_one_digit str_nat_more_digits digit_def)
  have "getPageList post tok 0 200 s
        = (Inr \<lparr>total_count = PyInt 0, pages = []\<rparr>,
           s\<lparr>posts := posts s @ [(Slash API_URL ''getPageList'',
              [(''access_token'', Str tok), (''offset'', Str ''0''), (''limit'', Str ''200'')])]\<rparr>)"
    if "post (Slash API_URL ''getPageList'')
          [(''access_token'', Str tok), (''offset'', Str ''0''), (''limit'', Str ''200'')]
        = Inr (PyDict [(''ok'', PyBool True),
                       (''result'', PyDict [(''total_count'', PyInt 0), (''pages'', PyList [])])])"
    using that
    by (simp add: getPageList_def s0 s200 request_def Let_def getitem_def kwargs_of_def iter_def
        TelegraphResult_init_def PageList_init_def check_kwargs_def arg_def instance_of_int_def)
  then show ?thesis
    using getPageList_invalid by blast
qed

text \<open>Instances: offset -1, and the successful call of the claim on a fresh client.\<close>

theorem getPageList_checked_witness:
  "getPageList (\<lambda>u d. Inr (PyDict [(''ok'', PyBool True),
                       (''result'', PyDict [(''total_count'', PyInt 0), (''pages'', PyList [])])]))
      ''T1'' (- 1) 50 Telegraph_init
     = (Inl (ValueError [Lit ''Offset must be a non-negative integer'']), Telegraph_init)
   \<and> getPageList (\<lambda>u d. Inr (PyDict [(''ok'', PyBool True),
                       (''result'', PyDict [(''total_count'', PyInt 0), (''pages'', PyList [])])]))
      ''T1'' 0 200 Telegraph_init
     = (Inr \<lparr>total_count = PyInt 0, pages = []\<rparr>,
        \<lparr>account = None,
         posts = [(Slash ''https://api.telegra.ph'' ''getPageList'',
              [(''access_token'', Str ''T1''), (''offset'', Str ''0''), (''limit'', Str ''200'')])]\<rparr>)"
proof -
  let ?post = "\<lambda>u d. Inr (PyDict [(''ok'', PyBool True),
                       (''result'', PyDict [(''total_count'', PyInt 0), (''pages'', PyList [])])])
               :: error + pyval"
  have "getPageList ?post ''T1'' (- 1) 50 Telegraph_init
     = (Inl (ValueError [Lit ''Offset must be a non-negative integer'']), Telegraph_init)"
    by (simp add: getPageList_def)
  then show ?thesis
    using getPageList_checked [of "- 1" 50 ?post "''T1''" Telegraph_init]
    by (simp add: Telegraph_init_def API_URL_def)
qed

lemma after_request_snd:
  "snd (case request post p d s of
          (Inl e, s1) \<Rightarrow> (Inl e, s1)
        | (Inr response, s1) \<Rightarrow> (F response, s1))
     = s\<lparr>posts := posts s @ [(Slash API_URL p, d)]\<rparr>"
proof -
  obtain r0 s0 where r0: "request post p d s = (r0, s0)"
    by (cases "request post p d s")
  then have "s0 = s\<lparr>posts := posts s @ [(Slash API_URL p, d)]\<rparr>"
    using request_snd [of post p d s] by simp
  with r0 show ?thesis
    by (cases r0) simp_all
qed

lemma getViews_posts:
  assumes "\<not> ((nonzero y \<and> \<not> (2000 \<le> the y \<and> the y \<le> 2100))
               \<or> (nonzero m \<and> \<not> (1 \<le> the m \<and> the m \<le> 12))
               \<or> (nonzero dd \<and> \<not> (1 \<le> the dd \<and> the dd \<le> 31))
               \<or> (nonzero h \<and> \<not> (0 \<le> the h \<and> the h \<le> 24)))"
  shows "snd (getViews post p y m dd h s) =
     s\<lparr>posts := posts s @ [(Slash API_URL (''getViews/'' @ p),
         (if nonzero y then [(''year'', Str (str_int (the y)))] else [])
         @ (if nonzero m then [(''month'', Str (str_int (the m)))] else [])
         @ (if nonzero dd then [(''day'', Str (str_int (the dd)))] else [])
         @ (if nonzero h then [(''hour'', Str (str_int (the h)))] else []))]\<rparr>"
  unfolding getViews_valid [OF assms]
  by (subst after_request_snd) simp

text \<open>
  C8. In \<^verbatim>\<open>getViews\<close>, if one of \<^verbatim>\<open>year\<close>, \<^verbatim>\<open>month\<close>, \<^verbatim>\<open>day\<close>, \<^verbatim>\<open>hour\<close> is given,
  is not zero and lies outside [2000, 2100], [1, 12], [1, 31], [0, 24] respectively, the
  call raises a \<^verbatim>\<open>ValueError\<close> and the record of the requests posted is as it was.
  Otherwise (each of them absent, zero, or within its range) the call posts one
  request, and the form data of that request has the key \<^verbatim>\<open>year\<close>
  exactly when a year is given and is not zero, then holding \<^verbatim>\<open>str(year)\<close>; likewise
  \<^verbatim>\<open>month\<close>, \<^verbatim>\<open>day\<close> and \<^verbatim>\<open>hour\<close>; and it has no other key.
\<close>

theorem getViews_checked:
  "if (\<exists>v. y = Some v \<and> v \<noteq> 0 \<and> (v < 2000 \<or> 2100 < v))
      \<or> (\<exists>v. m = Some v \<and> v \<noteq> 0 \<and> (v < 1 \<or> 12 < v))
      \<or> (\<exists>v. dd = Some v \<and> v \<noteq> 0 \<and> (v < 1 \<or> 31 < v))
      \<or> (\<exists>v. h = Some v \<and> v \<noteq> 0 \<and> (v < 0 \<or> 24 < v))
   then (\<exists>msg. getViews post p y m dd h s = (Inl (ValueError msg), s))
   else (\<exists>u data.
          snd (getViews post p y m dd h s) = s\<lparr>posts := posts s @ [(u, data)]\<rparr>
          \<and> map_of data ''year''
              = (case y of None \<Rightarrow> None | Some v \<Rightarrow> if v = 0 then None else Some (Str (str_int v)))
          \<and> map_of data ''month''
              = (case m of None \<Rightarrow> None | Some v \<Rightarrow> if v = 0 then None else Some (Str (str_int v)))
          \<and> map_of data ''day''
              = (case dd of None \<Rightarrow> None | Some v \<Rightarrow> if v = 0 then None else Some (Str (str_int v)))
          \<and> map_of data ''hour''
              = (case h of None \<Rightarrow> None | Some v \<Rightarrow> if v = 0 then None else Some (Str (str_int v)))
          \<and> fst ` set data \<subseteq> {''year'', ''month'', ''day'', ''hour''})"
proof -
  let ?bad = "(nonzero y \<and> \<not> (2000 \<le> the y \<and> the y \<le> 2100))
              \<or> (nonzero m \<and> \<not> (1 \<le> the m \<and> the m \<le> 12))
              \<or> (nonzero dd \<and> \<not> (1 \<le> the dd \<and> the dd \<le> 31))
              \<or> (nonzero h \<and> \<not> (0 \<le> the h \<and> the h \<le> 24))"
  let ?claimed = "(\<exists>v. y = Some v \<and> v \<noteq> 0 \<and> (v < 2000 \<or> 2100 < v))
      \<or> (\<exists>v. m = Some v \<and> v \<noteq> 0 \<and> (v < 1 \<or> 12 < v))
      \<or> (\<exists>v. dd = Some v \<and> v \<noteq> 0 \<and> (v < 1 \<or> 31 < v))
      \<or> (\<exists>v. h = Some v \<and> v \<noteq> 0 \<and> (v < 0 \<or> 24 < v))"
  let ?data = "(if nonzero y then [(''year'', Str (str_int (the y)))] else [])
         @ (if nonzero m then [(''month'', Str (str_int (the m)))] else [])
         @ (if nonzero dd then [(''day'', Str (str_int (the dd)))] else [])
         @ (if nonzero h then [(''hour'', Str (str_int (the h)))] else [])"
  have e: "(\<exists>v. x = Some v \<and> v \<noteq> 0 \<and> (v < lo \<or> hi < v))
      \<longleftrightarrow> (nonzero x \<and> \<not> (lo \<le> the x \<and> the x \<le> hi))" for x lo hi
    by (cases x) (auto simp: nonzero_def)
  have same: "?claimed \<longleftrightarrow> ?bad"
    by (simp only: e)
  show ?thesis
  proof (cases ?claimed)
    case True
    with same have ?bad by blast
    then have inv: "\<exists>msg. getViews post p y m dd h s = (Inl (ValueError msg), s)"
      by (rule getViews_invalid)
    show ?thesis
      unfolding if_P [OF True] by (rule inv)
  next
    case False
    with same have nb: "\<not> ?bad" by blast
    have "map_of ?data ''year''
              = (case y of None \<Rightarrow> None | Some v \<Rightarrow> if v = 0 then None else Some (Str (str_int v)))"
      by (cases y) (simp_all add: nonzero_def)
    moreover have "map_of ?data ''month''
              = (case m of None \<Rightarrow> None | Some v \<Rightarrow> if v = 0 then None else Some (Str (str_int v)))"
      by (cases m) (simp_all add: nonzero_def)
    moreover have "map_of ?data ''day''
              = (case dd of None \<Rightarrow> None | Some v \<Rightarrow> if v = 0 then None else Some (Str (str_int v)))"
      by (cases dd) (simp_all add: nonzero_def)
    moreover have "map_of ?data ''hour''
              = (case h of None \<Rightarrow> None | Some v \<Rightarrow> if v = 0 then None else Some (Str (str_int v)))"
      by (cases h) (simp_all add: nonzero_def)
    moreover have "fst ` set ?data \<subseteq> {''year'', ''month'', ''day'', ''hour''}"
      by auto
    moreover note getViews_posts [OF nb, of post p s]
    ultimately have ex: "\<exists>u data.
          snd (getViews post p y m dd h s) = s\<lparr>posts := posts s @ [(u, data)]\<rparr>
          \<and> map_of data ''year''
              = (case y of None \<Rightarrow> None | Some v \<Rightarrow> if v = 0 then None else Some (Str (str_int v)))
          \<and> map_of data ''month''
              = (case m of None \<Rightarrow> None | Some v \<Rightarrow> if v = 0 then None else Some (Str (str_int v)))
          \<and> map_of data ''day''
              = (case dd of None \<Rightarrow> None | Some v \<Rightarrow> if v = 0 then None else Some (Str (str_int v)))
          \<and> map_of data ''hour''
              = (case h of None \<Rightarrow> None | Some v \<Rightarrow> if v = 0 then None else Some (Str (str_int v)))
          \<and> fst ` set data \<subseteq> {''year'', ''month'', ''day'', ''hour''}"
      by blast
    show ?thesis
      unfolding if_not_P [OF False] by (rule ex)
  qed
qed

lemma str_int_24: "str_int 24 = ''24''" 
  by (simp add: str_int_def str_nat_one_digit str_nat_more_digits digit_def)

lemma str_int_2024: "str_int 2024 = ''2024''"
  by (simp add: str_int_def str_nat_one_digit str_nat_more_digits digit_def)

text \<open>
  Instances: hour 25 is refused before any request; year 2024, month 0, no day and hour
  24 are accepted, and the request carries \<^verbatim>\<open>year\<close> and \<^verbatim>\<open>hour\<close> only.
\<close>

theorem getViews_checked_witness:
  "getViews (\<lambda>u d. Inl (TransportError ''unreachable'')) ''Sample-Page-12-15''
       None None None (Some 25) Telegraph_init
     = (Inl (ValueError [Lit ''Hour must be between 0 and 24'']), Telegraph_init)
   \<and> snd (getViews (\<lambda>u d. Inl (TransportError ''unreachable'')) ''Sample-Page-12-15''
       (Some 2024) (Some 0) None (Some 24) Telegraph_init)
     = \<lparr>account = None,
        posts = [(Slash ''https://api.telegra.ph'' ''getViews/Sample-Page-12-15'',
                  [(''year'', Str ''2024''), (''hour'', Str ''24'')])]\<rparr>"
proof -
  let ?post = "\<lambda>u d. Inl (TransportError ''unreachable'') :: error + pyval"
  from getViews_checked [of None None None "Some 25" ?post "''Sample-Page-12-15''" Telegraph_init]
  have "\<exists>msg. getViews ?post ''Sample-Page-12-15'' None None None (Some 25) Telegraph_init
      = (Inl (ValueError msg), Telegraph_init)"
    by simp
  then have "getViews ?post ''Sample-Page-12-15'' None None None (Some 25) Telegraph_init
     = (Inl (ValueError [Lit ''Hour must be between 0 and 24'']), Telegraph_init)"
    by (auto simp: getViews_def Let_def nonzero_def)
  moreover
  have "snd (getViews ?post ''Sample-Page-12-15'' (Some 2024) (Some 0) None (Some 24) Telegraph_init)
     = \<lparr>account = None,
        posts = [(Slash ''https://api.telegra.ph'' ''getViews/Sample-Page-12-15'',
                  [(''year'', Str ''2024''), (''hour'', Str ''24'')])]\<rparr>"
    by (simp add: getViews_def Let_def nonzero_def request_def API_URL_def Telegraph_init_def
        str_int_24 str_int_2024)
  ultimately show ?thesis by simp
qed

section \<open>Accounts\<close>
















section \<open>Overlay without a held account\<close>

lemma overlay_no_account:
  assumes none: "account s = None"
    and posted: "posts (snd (case request post p d s of
              (Inl e, s1) \<Rightarrow> (Inl e, s1)
            | (Inr response, s1) \<Rightarrow>
                if truthy (result response) then
                  (case and_then (kwargs_of (result response)) (evolve (account s1)) of
                     Inl e \<Rightarrow> (Inl e, s1)
                   | Inr a \<Rightarrow> (Inr (Some a), s1\<lparr>account := Some a\<rparr>))
                else (Inr (account s1), s1))) = posts s @ [(u, d')]"
    and env: "post u d' = Inr (PyDict env)" "fst ` set env \<subseteq> {''ok'', ''result'', ''error''}"
      "truthy (arg env ''ok'')" "truthy (arg env ''result'')"
  shows "fst (case request post p d s of
              (Inl e, s1) \<Rightarrow> (Inl e, s1)
            | (Inr response, s1) \<Rightarrow>
                if truthy (result response) then
                  (case and_then (kwargs_of (result response)) (evolve (account s1)) of
                     Inl e \<Rightarrow> (Inl e, s1)
                   | Inr a \<Rightarrow> (Inr (Some a), s1\<lparr>account := Some a\<rparr>))
                else (Inr (account s1), s1))
        = Inl (case arg env ''result'' of PyDict ch \<Rightarrow> NotAnAttrsClassError | _ \<Rightarrow> NotAMapping (arg env ''result''))"
proof -
  have "posts s @ [(Slash API_URL p, d)] = posts s @ [(u, d')]"
    using posted by (subst (asm) after_request_posts) (simp_all split: sum.splits)
  then have "post (Slash API_URL p) d = Inr (PyDict env)"
    using env(1) by simp
  moreover from truthy_arg [OF env(3)] obtain okv where "map_of env ''ok'' = Some okv" "truthy okv"
    by blast
  ultimately have "request post p d s
     = (Inr \<lparr>ok = okv, result = arg env ''result'', error = arg env ''error''\<rparr>,
        s\<lparr>posts := posts s @ [(Slash API_URL p, d)]\<rparr>)"
    using env(2) request_ok [of post p d env okv s] by simp
  then show ?thesis
    using env(4) none
    by (cases "arg env ''result''") (simp_all add: kwargs_of_def evolve_def)
qed

lemma revokeAccessToken_no_account:
  assumes none: "account s = None"
    and posted: "posts (snd (revokeAccessToken post tok s)) = posts s @ [(u, d)]"
    and env: "post u d = Inr (PyDict env)" "fst ` set env \<subseteq> {''ok'', ''result'', ''error''}"
      "truthy (arg env ''ok'')" "truthy (arg env ''result'')"
  shows "fst (revokeAccessToken post tok s)
        = Inl (case arg env ''result'' of PyDict ch \<Rightarrow> NotAnAttrsClassError
               | _ \<Rightarrow> AttributeError (arg env ''result'') ''get'')"
proof -
  have "posts s @ [(Slash API_URL ''revokeAccessToken'', [(''access_token'', Str tok)])]
      = posts s @ [(u, d)]"
    using posted unfolding revokeAccessToken_def Let_def
    by (subst (asm) after_request_posts) (simp_all split: sum.splits)
  then have "post (Slash API_URL ''revokeAccessToken'') [(''access_token'', Str tok)]
      = Inr (PyDict env)"
    using env(1) by simp
  moreover from truthy_arg [OF env(3)] obtain okv where "map_of env ''ok'' = Some okv" "truthy okv"
    by blast
  ultimately have "request post ''revokeAccessToken'' [(''access_token'', Str tok)] s
     = (Inr \<lparr>ok = okv, result = arg env ''result'', error = arg env ''error''\<rparr>,
        s\<lparr>posts := posts s @ [(Slash API_URL ''revokeAccessToken'', [(''access_token'', Str tok)])]\<rparr>)"
    using env(2) request_ok [of post "''revokeAccessToken''" "[(''access_token'', Str tok)]" env okv s]
    by simp
  then show ?thesis
    using env(4) none
    by (cases "arg env ''result''") (simp_all add: revokeAccessToken_def get_def evolve_def)
qed

text \<open>
  C10. Let the client hold no account (\<^verbatim>\<open>self.account\<close> is \<^verbatim>\<open>None\<close>, as after
  \<^verbatim>\<open>__init__\<close>), and let \<^verbatim>\<open>editAccountInfo\<close>, \<^verbatim>\<open>getAccountInfo\<close> or
  \<^verbatim>\<open>revokeAccessToken\<close> receive an envelope with a true \<^verbatim>\<open>ok\<close> and a non-empty
  \<^verbatim>\<open>result\<close>. Then the call raises instead of returning an account, and the client
  still holds no account. When \<^verbatim>\<open>result\<close> is a dictionary, the error is the one that
  \<^verbatim>\<open>attrs.evolve\<close> raises for \<^verbatim>\<open>None\<close>.
\<close>

theorem overlay_needs_account:
  assumes "account s = None"
    and "c = EditAccountInfo tok sn an au \<or> c = GetAccountInfo tok fs \<or> c = RevokeAccessToken tok"
    and "posts (snd (run post c s)) = posts s @ [(u, d)]" and "post u d = Inr (PyDict env)"
    and "fst ` set env \<subseteq> {''ok'', ''result'', ''error''}"
    and "truthy (arg env ''ok'')" and "truthy (arg env ''result'')"
  shows "(\<exists>e. fst (run post c s) = Inl e)
     \<and> ((\<exists>ch. arg env ''result'' = PyDict ch) \<longrightarrow> fst (run post c s) = Inl NotAnAttrsClassError)
     \<and> account (snd (run post c s)) = None"
proof -
  have f: "\<exists>e. fst (run post c s) = Inl e
      \<and> ((\<exists>ch. arg env ''result'' = PyDict ch) \<longrightarrow> e = NotAnAttrsClassError)"
    using assms(2)
  proof (elim disjE)
    assume c: "c = EditAccountInfo tok sn an au"
    with assms(3) have "posts (snd (editAccountInfo post tok sn an au s)) = posts s @ [(u, d)]"
      by (simp add: returning_snd)
    from overlay_no_account [OF assms(1) this [unfolded editAccountInfo_def Let_def] assms(4-7)]
    show ?thesis
      unfolding c by (auto simp: returning_fst editAccountInfo_def Let_def)
  next
    assume c: "c = GetAccountInfo tok fs"
    with assms(3) have "posts (snd (getAccountInfo post tok fs s)) = posts s @ [(u, d)]"
      by (simp add: returning_snd)
    from overlay_no_account [OF assms(1) this [unfolded getAccountInfo_def Let_def] assms(4-7)]
    show ?thesis
      unfolding c by (auto simp: returning_fst getAccountInfo_def Let_def)
  next
    assume c: "c = RevokeAccessToken tok"
    with assms(3) have "posts (snd (revokeAccessToken post tok s)) = posts s @ [(u, d)]"
      by (simp add: returning_snd)
    from revokeAccessToken_no_account [OF assms(1) this assms(4-7)]
    show ?thesis
      unfolding c by (auto simp: returning_fst)
  qed
  then obtain e where e: "fst (run post c s) = Inl e" by blast
  have "account (snd (run post c s)) = account s"
    using assms(2)
  proof (elim disjE)
    assume c: "c = EditAccountInfo tok sn an au"
    with e show ?thesis
      using editAccountInfo_failure [of post tok sn an au s e "snd (editAccountInfo post tok sn an au s)"]
      by (simp add: returning_Inl returning_snd prod_eq_iff)
  next
    assume c: "c = GetAccountInfo tok fs"
    with e show ?thesis
      using getAccountInfo_failure [of post tok fs s e "snd (getAccountInfo post tok fs s)"]
      by (simp add: returning_Inl returning_snd prod_eq_iff)
  next
    assume c: "c = RevokeAccessToken tok"
    with e show ?thesis
      using revokeAccessToken_failure [of post tok s e "snd (revokeAccessToken post tok s)"]
      by (simp add: returning_Inl returning_snd prod_eq_iff)
  qed
  with f assms(1) show ?thesis by auto
qed

text \<open>
  An instance: on a fresh client, \<^verbatim>\<open>editAccountInfo\<close> against
  \<^verbatim>\<open>{"ok": true, "result": {"short_name": "new"}}\<close>.
\<close>

theorem overlay_needs_account_witness:
  "run (\<lambda>u d. Inr (PyDict [(''ok'', PyBool True), (''result'', PyDict [(''short_name'', PyStr ''new'')])]))
       (EditAccountInfo ''T1'' (Some ''new'') None None) Telegraph_init
     = (Inl NotAnAttrsClassError,
        \<lparr>account = None,
         posts = [(Slash ''https://api.telegra.ph'' ''editAccountInfo'',
                   [(''access_token'', Str ''T1''), (''short_name'', Str ''new'')])]\<rparr>)"
proof -
  let ?post = "\<lambda>u d. Inr (PyDict [(''ok'', PyBool True), (''result'', PyDict [(''short_name'', PyStr ''new'')])])
      :: error + pyval"
  let ?c = "EditAccountInfo ''T1'' (Some ''new'') None None"
  have a: "account Telegraph_init = None"
    by (simp add: Telegraph_init_def)
  have p: "posts (snd (run ?post ?c Telegraph_init))
      = posts Telegraph_init @ [(Slash ''https://api.telegra.ph'' ''editAccountInfo'',
                   [(''access_token'', Str ''T1''), (''short_name'', Str ''new'')])]"
    by (simp add: editAccountInfo_def Telegraph_init_def client_defs)
  have c: "?c = EditAccountInfo ''T1'' (Some ''new'') None None \<or> ?c = GetAccountInfo ''T1'' None
      \<or> ?c = RevokeAccessToken ''T1''"
    by simp
  from overlay_needs_account [OF a c p, of "[(''ok'', PyBool True), (''result'', PyDict [(''short_name'', PyStr ''new'')])]"]
  have "fst (run ?post ?c Telegraph_init) = Inl NotAnAttrsClassError
      \<and> account (snd (run ?post ?c Telegraph_init)) = None"
    by (simp add: arg_def)
  with p show ?thesis
    by (simp add: prod_eq_iff Telegraph.equality Telegraph_init_def)
qed

end
